theory Spec2Isabelle
  imports Main
begin

section \<open>Data model\<close>

text \<open>
  A LangChain \<open>Document\<close>: the text of a chunk and its metadata dictionary. The values
  of the dictionary are opaque to this module, so their type is a parameter.
\<close>

record 'v Document =
  page_content :: string
  metadata :: "string \<rightharpoonup> 'v"

text \<open>
  Modelled from the spec: the class \<open>ChunkConfig\<close> (\<open>ingenious/chunk/config.py\<close>) is
  not among the sources. The fields are those of the spec's data model, which are also
  exactly the attributes this module reads. The optional strings are \<open>str | None\<close>.
\<close>

record ChunkConfig =
  chunk_size :: int
  chunk_overlap :: int
  overlap_unit :: string
  encoding_name :: string
  separators :: "string list"
  embed_model :: "string option"
  azure_openai_deployment :: "string option"

text \<open>
  An exception raised by an external collaborator, carried as a value: a failure of a
  backend during a split, or an exception of a library constructor.
\<close>

datatype error = OracleFailure string | ValueError string | ValidationError string

subsection \<open>Objects of the external libraries\<close>

text \<open>
  The module constructs objects of classes it imports: the embedding clients, the
  semantic chunker and the recursive character splitter from the LangChain packages, and
  \<open>RecursiveTokenSplitter\<close> from the sibling module \<open>langchain_recursive\<close>, which is
  not among the sources. Each constructor call is modelled as a value holding the
  arguments of the call, in the order of the keywords in the source.
\<close>

datatype Embeddings =
  AzureOpenAIEmbeddings (model: string) (azure_deployment: string)
| OpenAIEmbeddings (model: string)

datatype SemanticChunker =
  SemanticChunker (embeddings: Embeddings) (min_chunk_size: int)
    (breakpoint_threshold_amount: int)

datatype RecursiveCharacterTextSplitter =
  RecursiveCharacterTextSplitter (rc_chunk_size: int) (rc_chunk_overlap: int)

datatype RecursiveTokenSplitter =
  RecursiveTokenSplitter (rt_encoding_name: string) (rt_chunk_size: int)
    (rt_chunk_overlap: int) (rt_separators: "string list")

text \<open>
  A constructor of a library class may raise on the arguments it is given, or for want of
  credentials. Whether it does is a parameter of the model: for each class, the exception
  raised on a call, if any.
\<close>

record library =
  embeddings_init :: "Embeddings \<Rightarrow> error option"
  semantic_chunker_init :: "SemanticChunker \<Rightarrow> error option"
  character_splitter_init :: "RecursiveCharacterTextSplitter \<Rightarrow> error option"
  token_splitter_init :: "RecursiveTokenSplitter \<Rightarrow> error option"

text \<open>A constructor call: the exception, or the object holding the arguments.\<close>

definition construct :: "('a \<Rightarrow> error option) \<Rightarrow> 'a \<Rightarrow> error + 'a" where
  "construct init x = (case init x of Some e \<Rightarrow> Inl e | None \<Rightarrow> Inr x)"

text \<open>
  The methods take an \<open>Iterable[Document]\<close>. A sequence (a list, a tuple) yields its
  documents at every traversal; a one-shot iterator (a generator) yields them at the
  first traversal and nothing afterwards. \<open>items\<close> is what a traversal yields and
  \<open>rest_after\<close> is the iterable a traversal leaves behind.
\<close>

datatype 'v iterable = Sequence "'v Document list" | Iterator "'v Document list"

fun items :: "'v iterable \<Rightarrow> 'v Document list" where
  "items (Sequence ds) = ds"
| "items (Iterator ds) = ds"

fun rest_after :: "'v iterable \<Rightarrow> 'v iterable" where
  "rest_after (Sequence ds) = Sequence ds"
| "rest_after (Iterator ds) = Iterator []"

text \<open>
  What the collaborators do when called is a parameter of the model. A
  \<open>split_documents\<close> method of a library splitter traverses its argument once; it is
  given as a function of the documents that traversal yields, and may raise. The unit
  oracle of the spec counts the units of a text and slices a text by unit offsets, for a
  unit name and an encoding name.
\<close>

record 'v externals =
  character_split_documents ::
    "RecursiveCharacterTextSplitter \<Rightarrow> 'v Document list \<Rightarrow> error + 'v Document list"
  semantic_split_documents ::
    "SemanticChunker \<Rightarrow> 'v Document list \<Rightarrow> error + 'v Document list"
  token_split_documents ::
    "RecursiveTokenSplitter \<Rightarrow> 'v Document list \<Rightarrow> error + 'v Document list"
  unit_count :: "string \<Rightarrow> string \<Rightarrow> string \<Rightarrow> nat"
  unit_slice :: "string \<Rightarrow> string \<Rightarrow> string \<Rightarrow> nat \<Rightarrow> nat \<Rightarrow> string"

section \<open>Embedding-backend selector\<close>

text \<open>
  Python truthiness of a \<open>str | None\<close>: \<open>None\<close> and the empty string are false.
\<close>

fun truthy :: "string option \<Rightarrow> bool" where
  "truthy None = False"
| "truthy (Some s) = (s \<noteq> [])"

text \<open>\<open>x or d\<close> for a \<open>str | None\<close> on the left.\<close>

fun str_or :: "string option \<Rightarrow> string \<Rightarrow> string" where
  "str_or None d = d"
| "str_or (Some s) d = (if s \<noteq> [] then s else d)"

definition model_name :: "ChunkConfig \<Rightarrow> string" where
  "model_name cfg = str_or (embed_model cfg) ''text-embedding-3-small''"

definition select_embeddings :: "ChunkConfig \<Rightarrow> Embeddings" where
  "select_embeddings cfg =
     (case azure_openai_deployment cfg of
        Some d \<Rightarrow>
          (if d \<noteq> [] then AzureOpenAIEmbeddings (model_name cfg) d
           else OpenAIEmbeddings (model_name cfg))
      | None \<Rightarrow> OpenAIEmbeddings (model_name cfg))"

section \<open>Fallback wrapper\<close>

record SafeSemantic =
  semantic :: SemanticChunker
  backup :: RecursiveTokenSplitter

definition SafeSemantic_init :: "SemanticChunker \<Rightarrow> ChunkConfig \<Rightarrow> SafeSemantic" where
  "SafeSemantic_init sem cfg =
     \<lparr>semantic = sem,
      backup = RecursiveTokenSplitter (encoding_name cfg) (chunk_size cfg) 0 (separators cfg)\<rparr>"

text \<open>
  \<open>docs\<close> is handed to the semantic splitter and, on the fallback, handed again to the
  backup splitter, which traverses what the first traversal left.
\<close>

definition SafeSemantic_split_documents ::
  "'v externals \<Rightarrow> SafeSemantic \<Rightarrow> 'v iterable \<Rightarrow> error + 'v Document list" where
  "SafeSemantic_split_documents ext s docs =
     (case semantic_split_documents ext (semantic s) (items docs) of
        Inl e \<Rightarrow> Inl e
      | Inr out \<Rightarrow>
          (if length out > 1 then Inr out
           else token_split_documents ext (backup s) (items (rest_after docs))))"

section \<open>Overlap injection\<close>

text \<open>
  Modelled from the spec: the module \<open>ingenious/chunk/utils/overlap.py\<close> is not among
  the sources. The window a chunk borrows from its predecessor is the last \<open>k\<close> units
  of the predecessor's content, sliced by the unit oracle; a predecessor of fewer than
  \<open>k\<close> units is taken whole. The spec gives \<open>k \<ge> 0\<close>; for a \<open>k\<close> below zero the
  model slices from the end of the text to its end.
\<close>

definition overlap_window ::
  "'v externals \<Rightarrow> int \<Rightarrow> string \<Rightarrow> string \<Rightarrow> string \<Rightarrow> string" where
  "overlap_window ext k u enc prev =
     (let n = unit_count ext u enc prev
      in if int n < k then prev else unit_slice ext u enc prev (n - nat k) n)"

text \<open>
  Modelled from the spec: the pass over the chunks after the first, absent with the rest
  of \<open>overlap.py\<close>. Each chunk gets the window of the original content of the chunk
  before it in front of its own content; its metadata is kept.
\<close>

fun inject_after ::
  "'v externals \<Rightarrow> int \<Rightarrow> string \<Rightarrow> string \<Rightarrow> string \<Rightarrow> 'v Document list \<Rightarrow> 'v Document list"
  where
  "inject_after ext k u enc prev [] = []"
| "inject_after ext k u enc prev (c # cs) =
     c\<lparr>page_content := overlap_window ext k u enc prev @ page_content c\<rparr>
       # inject_after ext k u enc (page_content c) cs"

text \<open>
  Modelled from the spec: \<open>inject_overlap\<close> of \<open>overlap.py\<close>, absent from the sources,
  is the spec's Overlap Injector. At \<open>overlap = 0\<close> the sequence is returned as it is;
  otherwise the first chunk is unchanged and the later ones are injected; the empty
  sequence gives the empty sequence.
\<close>

definition inject_overlap ::
  "'v externals \<Rightarrow> 'v Document list \<Rightarrow> int \<Rightarrow> string \<Rightarrow> string \<Rightarrow> 'v Document list" where
  "inject_overlap ext chunks k u enc =
     (if k = 0 then chunks
      else (case chunks of
              [] \<Rightarrow> []
            | c # cs \<Rightarrow> c # inject_after ext k u enc (page_content c) cs))"

section \<open>Overlap wrapper\<close>

text \<open>The two kinds of base splitter the factory hands to the wrapper.\<close>

datatype base_splitter =
  CharacterBase RecursiveCharacterTextSplitter
| SemanticBase SafeSemantic

record SemanticOverlapChunker =
  base :: base_splitter
  overlap :: int
  enc_name :: string
  unit :: string

fun base_split_documents ::
  "'v externals \<Rightarrow> base_splitter \<Rightarrow> 'v iterable \<Rightarrow> error + 'v Document list" where
  "base_split_documents ext (CharacterBase r) docs =
     character_split_documents ext r (items docs)"
| "base_split_documents ext (SemanticBase s) docs = SafeSemantic_split_documents ext s docs"

definition split_documents ::
  "'v externals \<Rightarrow> SemanticOverlapChunker \<Rightarrow> 'v iterable \<Rightarrow> error + 'v Document list"
  where
  "split_documents ext self docs =
     (case base_split_documents ext (base self) docs of
        Inl e \<Rightarrow> Inl e
      | Inr chunks \<Rightarrow> Inr (inject_overlap ext chunks (overlap self) (unit self) (enc_name self)))"

text \<open>\<open>metadata or {}\<close>: \<open>None\<close> and the empty dictionary both give the empty dictionary.\<close>

fun metadata_or_empty :: "(string \<rightharpoonup> 'v) option \<Rightarrow> (string \<rightharpoonup> 'v)" where
  "metadata_or_empty None = Map.empty"
| "metadata_or_empty (Some m) = (if m \<noteq> Map.empty then m else Map.empty)"

text \<open>The result of \<open>split_text\<close> is a list of strings or a list of documents.\<close>

datatype 'v split_result = Texts "string list" | Docs "'v Document list"

definition split_text ::
  "'v externals \<Rightarrow> SemanticOverlapChunker \<Rightarrow> string \<Rightarrow> (string \<rightharpoonup> 'v) option \<Rightarrow> bool
     \<Rightarrow> error + 'v split_result" where
  "split_text ext self text md return_docs =
     (let tmp_doc = \<lparr>page_content = text, metadata = metadata_or_empty md\<rparr>
      in case split_documents ext self (Sequence [tmp_doc]) of
           Inl e \<Rightarrow> Inl e
         | Inr docs \<Rightarrow>
             Inr (if return_docs then Docs docs else Texts (map page_content docs)))"

section \<open>Public factory\<close>

text \<open>
  The factory runs the library constructors in the order of the source: on the character
  path the recursive character splitter; on the token path the embedding client (inside
  \<open>_select_embeddings\<close>), the semantic chunker, and the token splitter (inside
  \<open>_SafeSemantic.__init__\<close>). \<open>select_embeddings\<close> and \<open>SafeSemantic_init\<close> give the
  calls the two helpers make; whether the library accepts a call is decided here, call by
  call, and the first exception ends the factory. The wrapper's own constructor only
  stores its arguments.
\<close>

definition create :: "library \<Rightarrow> ChunkConfig \<Rightarrow> error + SemanticOverlapChunker" where
  "create lib cfg =
     (let wrap = (\<lambda>base_splitter.
            \<lparr>base = base_splitter, overlap = chunk_overlap cfg,
             enc_name = encoding_name cfg, unit = overlap_unit cfg\<rparr>)
      in if overlap_unit cfg = ''characters'' then
           (case construct (character_splitter_init lib)
                   (RecursiveCharacterTextSplitter (chunk_size cfg) 0) of
              Inl e \<Rightarrow> Inl e
            | Inr base_splitter \<Rightarrow> Inr (wrap (CharacterBase base_splitter)))
         else
           (case construct (embeddings_init lib) (select_embeddings cfg) of
              Inl e \<Rightarrow> Inl e
            | Inr embeddings' \<Rightarrow>
                (case construct (semantic_chunker_init lib)
                        (SemanticChunker embeddings' (max 8 (chunk_size cfg div 2))
                           (chunk_size cfg)) of
                   Inl e \<Rightarrow> Inl e
                 | Inr semantic_splitter \<Rightarrow>
                     (case construct (token_splitter_init lib)
                             (backup (SafeSemantic_init semantic_splitter cfg)) of
                        Inl e \<Rightarrow> Inl e
                      | Inr b \<Rightarrow>
                          Inr (wrap (SemanticBase (SafeSemantic_init semantic_splitter cfg)))))))"

section \<open>The convenience path as the spec words it\<close>

text \<open>
  The spec's \<open>split(text, metadata, return_as_chunks)\<close>: wrap the text into a single
  transient document whose metadata is the given mapping, or the empty mapping when none
  is given; run the document path on it; return the chunks, or only their content
  strings. It is compared with \<open>split_text\<close> below.
\<close>

definition split_text_spec ::
  "'v externals \<Rightarrow> SemanticOverlapChunker \<Rightarrow> string \<Rightarrow> (string \<rightharpoonup> 'v) option \<Rightarrow> bool
     \<Rightarrow> error + 'v split_result" where
  "split_text_spec ext self text md return_as_chunks =
     map_sum id
       (\<lambda>chunks. if return_as_chunks then Docs chunks else Texts (map page_content chunks))
       (split_documents ext self
          (Sequence
             [\<lparr>page_content = text,
               metadata = (case md of None \<Rightarrow> Map.empty | Some m \<Rightarrow> m)\<rparr>]))"

section \<open>The metadata contract of the external splitters\<close>

text \<open>
  \<open>from_sources srcs ms\<close>: the list \<open>ms\<close> is \<open>srcs\<close> with every element repeated any
  number of times (also none), in order. For the metadata of a list of documents and the
  metadata of the chunks split from them, it says that the chunks come document by
  document and each carries the metadata of its document.
\<close>

fun from_sources :: "'m list \<Rightarrow> 'm list \<Rightarrow> bool" where
  "from_sources srcs [] = True"
| "from_sources [] (m # ms) = False"
| "from_sources (s # srcs) (m # ms) =
     ((m = s \<and> from_sources (s # srcs) ms) \<or> from_sources srcs (m # ms))"

text \<open>
  The spec's data model asks that a splitter propagate a document's metadata unchanged to
  every chunk derived from it. For the three splitters outside this module that is a
  contract, stated for every splitter object and every list of documents.
\<close>

definition keeps_metadata ::
  "('v Document list \<Rightarrow> error + 'v Document list) \<Rightarrow> bool" where
  "keeps_metadata f =
     (\<forall>docs out. f docs = Inr out \<longrightarrow> from_sources (map metadata docs) (map metadata out))"

definition splitters_keep_metadata :: "'v externals \<Rightarrow> bool" where
  "splitters_keep_metadata ext =
     ((\<forall>r. keeps_metadata (character_split_documents ext r)) \<and>
      (\<forall>s. keeps_metadata (semantic_split_documents ext s)) \<and>
      (\<forall>t. keeps_metadata (token_split_documents ext t)))"

section \<open>Sample collaborators and configurations\<close>

text \<open>
  Concrete stand-ins for the external collaborators, used to run the definitions on
  concrete inputs: a splitter that cuts every document once, after \<open>n\<close> characters; a
  semantic splitter that keeps every document in one block; units that are characters.
\<close>

definition cut_at :: "nat \<Rightarrow> 'v Document \<Rightarrow> 'v Document list" where
  "cut_at n d =
     [d\<lparr>page_content := take n (page_content d)\<rparr>, d\<lparr>page_content := drop n (page_content d)\<rparr>]"

definition sample_externals :: "'v externals" where
  "sample_externals =
     \<lparr>character_split_documents = (\<lambda>r docs. Inr (concat (map (cut_at (nat (rc_chunk_size r))) docs))),
      semantic_split_documents = (\<lambda>s docs. Inr docs),
      token_split_documents = (\<lambda>t docs. Inr (concat (map (cut_at (nat (rt_chunk_size t))) docs))),
      unit_count = (\<lambda>u enc t. length t),
      unit_slice = (\<lambda>u enc t i j. take (j - i) (drop i t))\<rparr>"

text \<open>
  A library whose constructors accept every call but a character splitter of chunk size
  zero or less, or of an overlap above its chunk size.
\<close>

definition sample_library :: library where
  "sample_library =
     \<lparr>embeddings_init = (\<lambda>e. None),
      semantic_chunker_init = (\<lambda>s. None),
      character_splitter_init =
        (\<lambda>r. if rc_chunk_size r \<le> 0 then Some (ValueError ''chunk_size must be > 0'')
             else if rc_chunk_size r < rc_chunk_overlap r
               then Some (ValueError ''larger chunk overlap than chunk size'')
             else None),
      token_splitter_init = (\<lambda>t. None)\<rparr>"

text \<open>The same collaborators with an embedding backend that raises.\<close>

definition failing_externals :: "'v externals" where
  "failing_externals =
     sample_externals\<lparr>semantic_split_documents := (\<lambda>s docs. Inl (OracleFailure ''rate limit''))\<rparr>"

definition cfg_characters :: ChunkConfig where
  "cfg_characters =
     \<lparr>chunk_size = 4, chunk_overlap = 2, overlap_unit = ''characters'',
      encoding_name = ''cl100k_base'', separators = [''. '', '' ''],
      embed_model = None, azure_openai_deployment = None\<rparr>"

definition cfg_tokens :: ChunkConfig where
  "cfg_tokens =
     \<lparr>chunk_size = 4, chunk_overlap = 2, overlap_unit = ''tokens'',
      encoding_name = ''cl100k_base'', separators = [''. '', '' ''],
      embed_model = None, azure_openai_deployment = None\<rparr>"

definition cfg_azure :: ChunkConfig where
  "cfg_azure = cfg_tokens\<lparr>azure_openai_deployment := Some ''emb-prod''\<rparr>"

definition cfg_azure_large :: ChunkConfig where
  "cfg_azure_large = cfg_azure\<lparr>embed_model := Some ''text-embedding-3-large''\<rparr>"



text \<open>The objects the factory builds for the two sample configurations.\<close>

definition chunker_characters :: SemanticOverlapChunker where
  "chunker_characters =
     \<lparr>base = CharacterBase (RecursiveCharacterTextSplitter 4 0), overlap = 2,
      enc_name = ''cl100k_base'', unit = ''characters''\<rparr>"

definition guard_tokens :: SafeSemantic where
  "guard_tokens =
     \<lparr>semantic = SemanticChunker (OpenAIEmbeddings ''text-embedding-3-small'') 8 4,
      backup = RecursiveTokenSplitter ''cl100k_base'' 4 0 [''. '', '' '']\<rparr>"

definition chunker_tokens :: SemanticOverlapChunker where
  "chunker_tokens =
     \<lparr>base = SemanticBase guard_tokens, overlap = 2,
      enc_name = ''cl100k_base'', unit = ''tokens''\<rparr>"

definition doc_abcdefgh :: "string Document" where
  "doc_abcdefgh = \<lparr>page_content = ''abcdefgh'', metadata = [''source'' \<mapsto> ''a.txt'']\<rparr>"

section \<open>Properties of overlap injection\<close>

text \<open>
  Injection keeps the number of chunks and every chunk's metadata; the content of a chunk
  after the first is the window of its predecessor's original content followed by its own
  original content.
\<close>

lemma length_inject_after [simp]: "length (inject_after ext k u enc prev cs) = length cs"
  by (induction cs arbitrary: prev) auto

lemma metadata_inject_after [simp]:
  "map metadata (inject_after ext k u enc prev cs) = map metadata cs"
  by (induction cs arbitrary: prev) auto

lemma nth_inject_after:
  "i < length cs \<Longrightarrow>
   page_content (inject_after ext k u enc prev cs ! i) =
     overlap_window ext k u enc (if i = 0 then prev else page_content (cs ! (i - 1)))
       @ page_content (cs ! i)"
proof (induction cs arbitrary: prev i)
  case Nil
  then show ?case by simp
next
  case (Cons c cs)
  show ?case
  proof (cases i)
    case 0
    then show ?thesis by simp
  next
    case (Suc j)
    with Cons.prems have "j < length cs" by simp
    from Cons.IH [OF this, of "page_content c"] Suc show ?thesis
      by (cases j) simp_all
  qed
qed

lemma length_inject_overlap [simp]: "length (inject_overlap ext chunks k u enc) = length chunks"
  by (simp add: inject_overlap_def split: list.splits)

lemma metadata_inject_overlap [simp]:
  "map metadata (inject_overlap ext chunks k u enc) = map metadata chunks"
  by (simp add: inject_overlap_def split: list.splits)

lemma nth_inject_overlap:
  assumes "k \<noteq> 0" and "i < length chunks"
  shows "page_content (inject_overlap ext chunks k u enc ! i) =
     (if i = 0 then page_content (chunks ! 0)
      else overlap_window ext k u enc (page_content (chunks ! (i - 1))) @ page_content (chunks ! i))"
proof (cases chunks)
  case Nil
  with assms show ?thesis by simp
next
  case (Cons c cs)
  show ?thesis
  proof (cases i)
    case 0
    with Cons assms show ?thesis by (simp add: inject_overlap_def)
  next
    case (Suc j)
    with Cons assms have "j < length cs" by simp
    from nth_inject_after [OF this, of ext k u enc "page_content c"] Cons Suc assms
    show ?thesis by (cases j) (simp_all add: inject_overlap_def)
  qed
qed


section \<open>The overlap wrapper on a successful base split\<close>

lemma split_documents_Inr:
  "base_split_documents ext (base self) docs = Inr raw \<Longrightarrow>
   split_documents ext self docs =
     Inr (inject_overlap ext raw (overlap self) (unit self) (enc_name self))"
  by (simp add: split_documents_def)

section \<open>The guard on the two kinds of iterable\<close>

text \<open>
  On a successful semantic result of at most one chunk the guard hands its argument to
  the backup splitter a second time. A sequence is split again; a one-shot iterator has
  nothing left, and the backup splitter is given no document.
\<close>

lemma safe_semantic_guard:
  assumes "semantic_split_documents ext sem (items docs) = Inr out"
  shows "SafeSemantic_split_documents ext (SafeSemantic_init sem cfg) docs =
     (if length out > 1 then Inr out
      else token_split_documents ext
             (RecursiveTokenSplitter (encoding_name cfg) (chunk_size cfg) 0 (separators cfg))
             (items (rest_after docs)))"
  using assms by (simp add: SafeSemantic_split_documents_def SafeSemantic_init_def)

lemma safe_semantic_guard_sequence:
  assumes "semantic_split_documents ext sem ds = Inr out"
  shows "SafeSemantic_split_documents ext (SafeSemantic_init sem cfg) (Sequence ds) =
     (if length out > 1 then Inr out
      else token_split_documents ext
             (RecursiveTokenSplitter (encoding_name cfg) (chunk_size cfg) 0 (separators cfg)) ds)"
  using safe_semantic_guard [of ext sem "Sequence ds" out cfg] assms by simp

lemma safe_semantic_guard_iterator:
  assumes "semantic_split_documents ext sem ds = Inr out"
  shows "SafeSemantic_split_documents ext (SafeSemantic_init sem cfg) (Iterator ds) =
     (if length out > 1 then Inr out
      else token_split_documents ext
             (RecursiveTokenSplitter (encoding_name cfg) (chunk_size cfg) 0 (separators cfg)) [])"
  using safe_semantic_guard [of ext sem "Iterator ds" out cfg] assms by simp

section \<open>Metadata from the sources\<close>

lemma from_sources_Nil_left [simp]: "from_sources [] ms \<longleftrightarrow> ms = []"
  by (cases ms) simp_all

lemma from_sources_Cons_left: "from_sources srcs ms \<Longrightarrow> from_sources (s # srcs) ms"
  by (cases ms) simp_all

lemma from_sources_refl: "from_sources xs xs"
proof (induction xs)
  case Nil
  show ?case by simp
next
  case (Cons x xs)
  from Cons.IH have "from_sources (x # xs) xs" by (rule from_sources_Cons_left)
  then show ?case by simp
qed

lemma from_sources_single: "from_sources [m] ms \<Longrightarrow> list_all (\<lambda>x. x = m) ms"
  by (induction ms) auto

text \<open>Under the contract, the guard and the base splitters keep metadata as well.\<close>

lemma guard_keeps_metadata:
  assumes contract: "splitters_keep_metadata ext"
    and res: "SafeSemantic_split_documents ext s docs = Inr out"
  shows "from_sources (map metadata (items docs)) (map metadata out)"
proof (cases "semantic_split_documents ext (semantic s) (items docs)")
  case (Inl e)
  with res show ?thesis by (simp add: SafeSemantic_split_documents_def)
next
  case (Inr sem_out)
  show ?thesis
  proof (cases "1 < length sem_out")
    case True
    with Inr res have "semantic_split_documents ext (semantic s) (items docs) = Inr out"
      by (simp add: SafeSemantic_split_documents_def)
    with contract show ?thesis
      by (simp add: splitters_keep_metadata_def keeps_metadata_def)
  next
    case False
    with Inr res have
      tok: "token_split_documents ext (backup s) (items (rest_after docs)) = Inr out"
      by (simp add: SafeSemantic_split_documents_def)
    with contract have
      again: "from_sources (map metadata (items (rest_after docs))) (map metadata out)"
      by (simp add: splitters_keep_metadata_def keeps_metadata_def)
    show ?thesis
    proof (cases docs)
      case (Sequence ds)
      with again show ?thesis by simp
    next
      case (Iterator ds)
      with again have "out = []" by simp
      then show ?thesis by simp
    qed
  qed
qed

lemma base_keeps_metadata:
  assumes contract: "splitters_keep_metadata ext"
    and res: "base_split_documents ext b docs = Inr raw"
  shows "from_sources (map metadata (items docs)) (map metadata raw)"
proof (cases b)
  case (CharacterBase r)
  with res have "character_split_documents ext r (items docs) = Inr raw" by simp
  with contract show ?thesis
    by (simp add: splitters_keep_metadata_def keeps_metadata_def)
next
  case (SemanticBase s)
  with res have "SafeSemantic_split_documents ext s docs = Inr raw" by simp
  with contract show ?thesis by (rule guard_keeps_metadata)
qed

text \<open>The sample splitters meet the contract.\<close>

lemma cut_at_keeps_metadata:
  "from_sources (map metadata docs) (map metadata (concat (map (cut_at n) docs)))"
proof (induction docs)
  case Nil
  show ?case by simp
next
  case (Cons d ds)
  have two: "map metadata (cut_at n d) = [metadata d, metadata d]"
    by (simp add: cut_at_def)
  from Cons.IH have
    "from_sources (metadata d # map metadata ds) (map metadata (concat (map (cut_at n) ds)))"
    by (rule from_sources_Cons_left)
  with two show ?case by simp
qed

lemma sample_externals_keep_metadata: "splitters_keep_metadata sample_externals"
  by (auto simp add: splitters_keep_metadata_def keeps_metadata_def sample_externals_def
      cut_at_keeps_metadata from_sources_refl)

section \<open>Claims\<close>

text \<open>
  C1. When the overlap \<open>k\<close> is positive and the base splitter returns at least two raw
  chunks, \<open>split_documents\<close> returns as many chunks; the content of the first is the
  content of the first raw chunk; and for every \<open>i \<ge> 1\<close> the content of chunk \<open>i\<close> is
  the last \<open>k\<close> units of the content of raw chunk \<open>i - 1\<close> (the whole of it when it has
  fewer than \<open>k\<close> units), followed by the content of raw chunk \<open>i\<close>. The window is cut
  from the raw predecessor, never from a chunk that already carries an overlap.
\<close>

theorem overlap_correctness:
  assumes k: "0 < overlap self"
    and raw: "base_split_documents ext (base self) docs = Inr raw"
    and two: "2 \<le> length raw"
  shows "\<exists>out. split_documents ext self docs = Inr out \<and> length out = length raw \<and>
     page_content (out ! 0) = page_content (raw ! 0) \<and>
     (\<forall>i. 1 \<le> i \<and> i < length raw \<longrightarrow>
        page_content (out ! i) =
          (if int (unit_count ext (unit self) (enc_name self) (page_content (raw ! (i - 1))))
                < overlap self
           then page_content (raw ! (i - 1))
           else unit_slice ext (unit self) (enc_name self) (page_content (raw ! (i - 1)))
                  (unit_count ext (unit self) (enc_name self) (page_content (raw ! (i - 1)))
                     - nat (overlap self))
                  (unit_count ext (unit self) (enc_name self) (page_content (raw ! (i - 1)))))
          @ page_content (raw ! i))"
proof -
  let ?out = "inject_overlap ext raw (overlap self) (unit self) (enc_name self)"
  from k have nz: "overlap self \<noteq> 0" by simp
  have res: "split_documents ext self docs = Inr ?out"
    using raw by (rule split_documents_Inr)
  have len: "length ?out = length raw" by simp
  from two have "0 < length raw" by (cases raw) simp_all
  from nth_inject_overlap [OF nz this]
  have first: "page_content (?out ! 0) = page_content (raw ! 0)" by simp
  have later: "page_content (?out ! i) =
      overlap_window ext (overlap self) (unit self) (enc_name self) (page_content (raw ! (i - 1)))
        @ page_content (raw ! i)"
    if "1 \<le> i" and "i < length raw" for i
    using nth_inject_overlap [OF nz that(2)] that(1) by simp
  from res len first later show ?thesis
    by (auto simp add: overlap_window_def Let_def)
qed

text \<open>
  The character path at chunk size 4 and overlap 2: \<open>abcdefgh\<close> is cut into \<open>abcd\<close>
  and \<open>efgh\<close>, and the second chunk comes out as \<open>cdefgh\<close>.
\<close>

theorem overlap_correctness_witness:
  "0 < overlap chunker_characters \<and>
   base_split_documents sample_externals (base chunker_characters) (Sequence [doc_abcdefgh])
     = Inr [doc_abcdefgh\<lparr>page_content := ''abcd''\<rparr>, doc_abcdefgh\<lparr>page_content := ''efgh''\<rparr>] \<and>
   page_content
     (projr (split_documents sample_externals chunker_characters (Sequence [doc_abcdefgh])) ! 0)
     = ''abcd'' \<and>
   page_content
     (projr (split_documents sample_externals chunker_characters (Sequence [doc_abcdefgh])) ! 1)
     = ''cdefgh''"
proof -
  let ?raw = "[doc_abcdefgh\<lparr>page_content := ''abcd''\<rparr>, doc_abcdefgh\<lparr>page_content := ''efgh''\<rparr>]"
  have k: "0 < overlap chunker_characters"
    by (simp add: chunker_characters_def)
  have raw: "base_split_documents sample_externals (base chunker_characters)
      (Sequence [doc_abcdefgh]) = Inr ?raw"
    by (simp add: chunker_characters_def sample_externals_def cut_at_def doc_abcdefgh_def)
  have two: "2 \<le> length ?raw" by simp
  have vals: "overlap chunker_characters = 2"
    "unit_count sample_externals u enc ''abcd'' = 4"
    "unit_slice sample_externals u enc ''abcd'' 2 4 = ''cd''" for u enc
    by (simp_all add: chunker_characters_def sample_externals_def)
  from overlap_correctness [OF k raw two] have
    "page_content
       (projr (split_documents sample_externals chunker_characters (Sequence [doc_abcdefgh])) ! 0)
       = ''abcd'' \<and>
     page_content
       (projr (split_documents sample_externals chunker_characters (Sequence [doc_abcdefgh])) ! 1)
       = ''cdefgh''"
    by (auto simp add: vals)
  with k raw show ?thesis by simp
qed

text \<open>
  C2. At overlap 0, \<open>split_documents\<close> returns what the base splitter returns: the same
  documents, content and metadata, or the same error.
\<close>

theorem zero_overlap_identity:
  "overlap self = 0 \<Longrightarrow>
   split_documents ext self docs = base_split_documents ext (base self) docs"
  by (cases "base_split_documents ext (base self) docs")
     (simp_all add: split_documents_def inject_overlap_def)

theorem zero_overlap_identity_witness:
  "overlap (chunker_characters\<lparr>overlap := 0\<rparr>) = 0 \<and>
   split_documents sample_externals (chunker_characters\<lparr>overlap := 0\<rparr>) (Sequence [doc_abcdefgh])
     = Inr [doc_abcdefgh\<lparr>page_content := ''abcd''\<rparr>, doc_abcdefgh\<lparr>page_content := ''efgh''\<rparr>]"
proof -
  have z: "overlap (chunker_characters\<lparr>overlap := 0\<rparr>) = 0" by simp
  have "base_split_documents sample_externals (base (chunker_characters\<lparr>overlap := 0\<rparr>))
      (Sequence [doc_abcdefgh])
      = Inr [doc_abcdefgh\<lparr>page_content := ''abcd''\<rparr>, doc_abcdefgh\<lparr>page_content := ''efgh''\<rparr>]"
    by (simp add: chunker_characters_def sample_externals_def cut_at_def doc_abcdefgh_def)
  with zero_overlap_identity [OF z, of sample_externals "Sequence [doc_abcdefgh]"] z
  show ?thesis by simp
qed

text \<open>
  C3 holds for a sequence and fails for a one-shot iterator, which \<open>Iterable[Document]\<close>
  admits. With a semantic splitter that keeps the document in one chunk, the guard on a
  list holding the document returns the backup splitter's two chunks; on a generator
  yielding the same document the backup splitter is given an exhausted iterator and the
  guard returns no chunk at all, not the re-split of the input.
\<close>

theorem guard_drops_one_shot_input:
  "semantic_split_documents sample_externals (semantic guard_tokens) [doc_abcdefgh]
     = Inr [doc_abcdefgh] \<and>
   token_split_documents sample_externals (backup guard_tokens) [doc_abcdefgh]
     = Inr [doc_abcdefgh\<lparr>page_content := ''abcd''\<rparr>, doc_abcdefgh\<lparr>page_content := ''efgh''\<rparr>] \<and>
   SafeSemantic_split_documents sample_externals guard_tokens (Sequence [doc_abcdefgh])
     = Inr [doc_abcdefgh\<lparr>page_content := ''abcd''\<rparr>, doc_abcdefgh\<lparr>page_content := ''efgh''\<rparr>] \<and>
   SafeSemantic_split_documents sample_externals guard_tokens (Iterator [doc_abcdefgh])
     = Inr []"
  by (simp add: SafeSemantic_split_documents_def sample_externals_def guard_tokens_def
      cut_at_def doc_abcdefgh_def)

text \<open>
  C4. The factory picks the base splitter by \<open>overlap_unit\<close>. For \<open>characters\<close> it calls
  the constructor of the recursive character splitter with the configured chunk size and
  overlap 0, and returns the wrapper around that splitter unless the constructor raises.
  For \<open>tokens\<close>, when the library constructors accept their calls, it returns the wrapper
  around the guard, the guard holding the semantic splitter built with the selected
  embeddings and \<open>min_chunk_size = max(8, chunk_size // 2)\<close>. Whenever the factory returns
  a chunker, its base splitter is the one of the configured unit and it holds the
  configured overlap, encoding name and overlap unit.
\<close>

theorem create_selects_pipeline:
  "(overlap_unit cfg = ''characters'' \<longrightarrow>
      create lib cfg =
        (case character_splitter_init lib (RecursiveCharacterTextSplitter (chunk_size cfg) 0) of
           Some e \<Rightarrow> Inl e
         | None \<Rightarrow>
             Inr \<lparr>base = CharacterBase (RecursiveCharacterTextSplitter (chunk_size cfg) 0),
                  overlap = chunk_overlap cfg, enc_name = encoding_name cfg,
                  unit = overlap_unit cfg\<rparr>)) \<and>
   (overlap_unit cfg = ''tokens'' \<and>
    embeddings_init lib (select_embeddings cfg) = None \<and>
    semantic_chunker_init lib
      (SemanticChunker (select_embeddings cfg) (max 8 (chunk_size cfg div 2)) (chunk_size cfg))
      = None \<and>
    token_splitter_init lib
      (RecursiveTokenSplitter (encoding_name cfg) (chunk_size cfg) 0 (separators cfg)) = None \<longrightarrow>
      create lib cfg =
        Inr \<lparr>base = SemanticBase
               \<lparr>semantic =
                  SemanticChunker (select_embeddings cfg) (max 8 (chunk_size cfg div 2))
                    (chunk_size cfg),
                backup =
                  RecursiveTokenSplitter (encoding_name cfg) (chunk_size cfg) 0
                    (separators cfg)\<rparr>,
             overlap = chunk_overlap cfg, enc_name = encoding_name cfg,
             unit = overlap_unit cfg\<rparr>) \<and>
   (\<forall>c. create lib cfg = Inr c \<longrightarrow>
      (overlap_unit cfg = ''characters'' \<longrightarrow>
         base c = CharacterBase (RecursiveCharacterTextSplitter (chunk_size cfg) 0)) \<and>
      (overlap_unit cfg = ''tokens'' \<longrightarrow>
         base c =
           SemanticBase
             \<lparr>semantic =
                SemanticChunker (select_embeddings cfg) (max 8 (chunk_size cfg div 2))
                  (chunk_size cfg),
              backup =
                RecursiveTokenSplitter (encoding_name cfg) (chunk_size cfg) 0
                  (separators cfg)\<rparr>) \<and>
      overlap c = chunk_overlap cfg \<and>
      enc_name c = encoding_name cfg \<and>
      unit c = overlap_unit cfg)"
proof (intro conjI allI impI)
  assume "overlap_unit cfg = ''characters''"
  then show "create lib cfg =
        (case character_splitter_init lib (RecursiveCharacterTextSplitter (chunk_size cfg) 0) of
           Some e \<Rightarrow> Inl e
         | None \<Rightarrow>
             Inr \<lparr>base = CharacterBase (RecursiveCharacterTextSplitter (chunk_size cfg) 0),
                  overlap = chunk_overlap cfg, enc_name = encoding_name cfg,
                  unit = overlap_unit cfg\<rparr>)"
    by (simp add: create_def construct_def split: option.splits)
next
  assume "overlap_unit cfg = ''tokens'' \<and>
    embeddings_init lib (select_embeddings cfg) = None \<and>
    semantic_chunker_init lib
      (SemanticChunker (select_embeddings cfg) (max 8 (chunk_size cfg div 2)) (chunk_size cfg))
      = None \<and>
    token_splitter_init lib
      (RecursiveTokenSplitter (encoding_name cfg) (chunk_size cfg) 0 (separators cfg)) = None"
  then show "create lib cfg =
        Inr \<lparr>base = SemanticBase
               \<lparr>semantic =
                  SemanticChunker (select_embeddings cfg) (max 8 (chunk_size cfg div 2))
                    (chunk_size cfg),
                backup =
                  RecursiveTokenSplitter (encoding_name cfg) (chunk_size cfg) 0
                    (separators cfg)\<rparr>,
             overlap = chunk_overlap cfg, enc_name = encoding_name cfg,
             unit = overlap_unit cfg\<rparr>"
    by (simp add: create_def construct_def SafeSemantic_init_def)
next
  fix c assume c: "create lib cfg = Inr c"
  {
    assume "overlap_unit cfg = ''characters''"
    with c show "base c = CharacterBase (RecursiveCharacterTextSplitter (chunk_size cfg) 0)"
      by (auto simp add: create_def construct_def split: option.splits)
  }
  {
    assume "overlap_unit cfg = ''tokens''"
    with c show "base c =
           SemanticBase
             \<lparr>semantic =
                SemanticChunker (select_embeddings cfg) (max 8 (chunk_size cfg div 2))
                  (chunk_size cfg),
              backup =
                RecursiveTokenSplitter (encoding_name cfg) (chunk_size cfg) 0
                  (separators cfg)\<rparr>"
      by (auto simp add: create_def construct_def SafeSemantic_init_def split: option.splits)
  }
  from c show "overlap c = chunk_overlap cfg"
    by (auto simp add: create_def construct_def split: option.splits if_splits)
  from c show "enc_name c = encoding_name cfg"
    by (auto simp add: create_def construct_def split: option.splits if_splits)
  from c show "unit c = overlap_unit cfg"
    by (auto simp add: create_def construct_def split: option.splits if_splits)
qed

text \<open>
  With the sample library the factory builds the two sample chunkers; a character
  splitter of chunk size 0 is refused by its constructor, and so is the factory's call.
\<close>

theorem create_selects_pipeline_witness:
  "overlap_unit cfg_characters = ''characters'' \<and>
   create sample_library cfg_characters = Inr chunker_characters \<and>
   overlap_unit cfg_tokens = ''tokens'' \<and>
   create sample_library cfg_tokens = Inr chunker_tokens \<and>
   create sample_library (cfg_characters\<lparr>chunk_size := 0\<rparr>)
     = Inl (ValueError ''chunk_size must be > 0'')"
proof -
  have c: "overlap_unit cfg_characters = ''characters''"
    and t: "overlap_unit cfg_tokens = ''tokens''"
    and z: "overlap_unit (cfg_characters\<lparr>chunk_size := 0\<rparr>) = ''characters''"
    by (simp_all add: cfg_characters_def cfg_tokens_def)
  have e: "select_embeddings cfg_tokens = OpenAIEmbeddings ''text-embedding-3-small''"
    by (simp add: select_embeddings_def model_name_def cfg_tokens_def)
  have f: "chunk_size cfg_characters = 4" "chunk_overlap cfg_characters = 2"
    "encoding_name cfg_characters = ''cl100k_base''"
    "chunk_size cfg_tokens = 4" "chunk_overlap cfg_tokens = 2"
    "encoding_name cfg_tokens = ''cl100k_base''" "separators cfg_tokens = [''. '', '' '']"
    by (simp_all add: cfg_characters_def cfg_tokens_def)
  have g: "chunk_size (cfg_characters\<lparr>chunk_size := 0\<rparr>) = 0" by simp
  have accepted: "embeddings_init sample_library x = None"
    "semantic_chunker_init sample_library y = None"
    "token_splitter_init sample_library w = None" for x y w
    by (simp_all add: sample_library_def)
  note characters =
    create_selects_pipeline [of cfg_characters sample_library, THEN conjunct1, rule_format, OF c]
  note tokens =
    create_selects_pipeline [of cfg_tokens sample_library, THEN conjunct2, THEN conjunct1,
      rule_format]
  note refused =
    create_selects_pipeline [of "cfg_characters\<lparr>chunk_size := 0\<rparr>" sample_library,
      THEN conjunct1, rule_format, OF z]
  from characters have 1: "create sample_library cfg_characters = Inr chunker_characters"
    by (simp add: f c sample_library_def chunker_characters_def)
  from tokens [OF conjI [OF t conjI [OF accepted(1) conjI [OF accepted(2) accepted(3)]]]]
  have 2: "create sample_library cfg_tokens = Inr chunker_tokens"
    by (simp add: f t e chunker_tokens_def guard_tokens_def)
  from refused have 3: "create sample_library (cfg_characters\<lparr>chunk_size := 0\<rparr>)
      = Inl (ValueError ''chunk_size must be > 0'')"
    by (simp only: g) (simp add: sample_library_def)
  from c t 1 2 3 show ?thesis by simp
qed

text \<open>
  C5. Overlap injection never touches metadata, so the metadata of the output is, chunk
  by chunk, the metadata the base splitter returned. When the three external splitters
  hand every chunk the metadata of the document it is split from, so do the guard and
  \<open>split_documents\<close>, for every input: the chunks come document by document, each with
  the metadata of its document. For the single document \<open>split_text\<close> builds from a text
  and a metadata mapping, \<open>split_text\<close> with \<open>return_docs = True\<close> returns the chunks of
  \<open>split_documents\<close>, and each carries that mapping.
\<close>

theorem metadata_round_trip:
  assumes contract: "splitters_keep_metadata ext"
    and raw: "base_split_documents ext (base self) docs = Inr raw"
  shows "\<exists>out. split_documents ext self docs = Inr out \<and>
     map metadata out = map metadata raw \<and>
     from_sources (map metadata (items docs)) (map metadata out) \<and>
     (\<forall>text md.
        docs = Sequence [\<lparr>page_content = text, metadata = metadata_or_empty md\<rparr>] \<longrightarrow>
        split_text ext self text md True = Inr (Docs out) \<and>
        list_all (\<lambda>c. metadata c = metadata_or_empty md) out)"
proof -
  let ?out = "inject_overlap ext raw (overlap self) (unit self) (enc_name self)"
  have res: "split_documents ext self docs = Inr ?out"
    using raw by (rule split_documents_Inr)
  have same: "map metadata ?out = map metadata raw" by simp
  from contract raw have "from_sources (map metadata (items docs)) (map metadata raw)"
    by (rule base_keeps_metadata)
  with same have src: "from_sources (map metadata (items docs)) (map metadata ?out)"
    by simp
  have single: "split_text ext self text md True = Inr (Docs ?out) \<and>
      list_all (\<lambda>c. metadata c = metadata_or_empty md) ?out"
    if d: "docs = Sequence [\<lparr>page_content = text, metadata = metadata_or_empty md\<rparr>]"
    for "text" md
  proof
    from res d show "split_text ext self text md True = Inr (Docs ?out)"
      by (simp add: split_text_def)
    from src d have "from_sources [metadata_or_empty md] (map metadata ?out)"
      by (simp del: metadata_inject_overlap)
    then have "list_all (\<lambda>m. m = metadata_or_empty md) (map metadata ?out)"
      by (rule from_sources_single)
    then show "list_all (\<lambda>c. metadata c = metadata_or_empty md) ?out"
      by (simp add: list_all_iff del: metadata_inject_overlap)
  qed
  from res same src single show ?thesis by blast
qed

text \<open>
  The character path on \<open>abcdefgh\<close> with metadata \<open>source = a.txt\<close>: both chunks carry
  that metadata, through either entry point.
\<close>

theorem metadata_round_trip_witness:
  "splitters_keep_metadata (sample_externals :: string externals) \<and>
   base_split_documents sample_externals (base chunker_characters) (Sequence [doc_abcdefgh])
     = Inr [doc_abcdefgh\<lparr>page_content := ''abcd''\<rparr>, doc_abcdefgh\<lparr>page_content := ''efgh''\<rparr>] \<and>
   map metadata
     (projr (split_documents sample_externals chunker_characters (Sequence [doc_abcdefgh])))
     = [[''source'' \<mapsto> ''a.txt''], [''source'' \<mapsto> ''a.txt'']] \<and>
   split_text sample_externals chunker_characters ''abcdefgh''
       (Some [''source'' \<mapsto> ''a.txt'']) True
     = Inr (Docs
         (projr (split_documents sample_externals chunker_characters (Sequence [doc_abcdefgh]))))"
proof -
  let ?raw = "[doc_abcdefgh\<lparr>page_content := ''abcd''\<rparr>, doc_abcdefgh\<lparr>page_content := ''efgh''\<rparr>]"
  have contract: "splitters_keep_metadata (sample_externals :: string externals)"
    by (rule sample_externals_keep_metadata)
  have d: "Sequence [doc_abcdefgh] = Sequence [\<lparr>page_content = ''abcdefgh'',
      metadata = metadata_or_empty (Some [''source'' \<mapsto> ''a.txt''])\<rparr>]"
    by (simp add: doc_abcdefgh_def)
  have raw: "base_split_documents sample_externals (base chunker_characters)
      (Sequence [doc_abcdefgh]) = Inr ?raw"
    by (simp add: chunker_characters_def sample_externals_def cut_at_def doc_abcdefgh_def)
  have m: "map metadata ?raw = [[''source'' \<mapsto> ''a.txt''], [''source'' \<mapsto> ''a.txt'']]"
    by (simp add: doc_abcdefgh_def)
  from metadata_round_trip [OF contract raw] obtain out where
    res: "split_documents sample_externals chunker_characters (Sequence [doc_abcdefgh]) = Inr out"
    and same: "map metadata out = map metadata ?raw"
    and single: "\<forall>text md.
        Sequence [doc_abcdefgh]
          = Sequence [\<lparr>page_content = text, metadata = metadata_or_empty md\<rparr>] \<longrightarrow>
        split_text sample_externals chunker_characters text md True = Inr (Docs out) \<and>
        list_all (\<lambda>c. metadata c = metadata_or_empty md) out"
    by blast
  from single d have
    "split_text sample_externals chunker_characters ''abcdefgh''
       (Some [''source'' \<mapsto> ''a.txt'']) True = Inr (Docs out)"
    by blast
  with res same m contract raw show ?thesis by simp
qed

text \<open>
  C6. On the semantic path the backend is chosen by the deployment identifier alone: with
  a deployment (a non-empty string, by Python truthiness) the Azure backend is built
  with that deployment and the model name; with none (\<open>None\<close> or the empty string) the
  public backend is built with the model name. The model name is the configured
  \<open>embed_model\<close>, and \<open>text-embedding-3-small\<close> when that is unset.
\<close>

theorem select_embeddings_by_deployment:
  "(\<forall>d. azure_openai_deployment cfg = Some d \<and> d \<noteq> [] \<longrightarrow>
      select_embeddings cfg = AzureOpenAIEmbeddings (model_name cfg) d) \<and>
   (\<not> truthy (azure_openai_deployment cfg) \<longrightarrow>
      select_embeddings cfg = OpenAIEmbeddings (model_name cfg)) \<and>
   (\<forall>m. embed_model cfg = Some m \<and> m \<noteq> [] \<longrightarrow> model_name cfg = m) \<and>
   (\<not> truthy (embed_model cfg) \<longrightarrow> model_name cfg = ''text-embedding-3-small'')"
proof (intro conjI allI impI)
  fix d assume "azure_openai_deployment cfg = Some d \<and> d \<noteq> []"
  then show "select_embeddings cfg = AzureOpenAIEmbeddings (model_name cfg) d"
    by (simp add: select_embeddings_def)
next
  assume "\<not> truthy (azure_openai_deployment cfg)"
  then show "select_embeddings cfg = OpenAIEmbeddings (model_name cfg)"
    by (cases "azure_openai_deployment cfg") (simp_all add: select_embeddings_def)
next
  fix m assume "embed_model cfg = Some m \<and> m \<noteq> []"
  then show "model_name cfg = m" by (simp add: model_name_def)
next
  assume "\<not> truthy (embed_model cfg)"
  then show "model_name cfg = ''text-embedding-3-small''"
    by (cases "embed_model cfg") (simp_all add: model_name_def)
qed

theorem select_embeddings_by_deployment_witness:
  "azure_openai_deployment cfg_azure_large = Some ''emb-prod'' \<and>
   embed_model cfg_azure_large = Some ''text-embedding-3-large'' \<and>
   select_embeddings cfg_azure_large
     = AzureOpenAIEmbeddings ''text-embedding-3-large'' ''emb-prod'' \<and>
   \<not> truthy (azure_openai_deployment cfg_tokens) \<and>
   \<not> truthy (embed_model cfg_tokens) \<and>
   select_embeddings cfg_tokens = OpenAIEmbeddings ''text-embedding-3-small''"
proof -
  have a: "azure_openai_deployment cfg_azure_large = Some ''emb-prod''"
    and b: "embed_model cfg_azure_large = Some ''text-embedding-3-large''"
    and c: "\<not> truthy (azure_openai_deployment cfg_tokens)"
    and d: "\<not> truthy (embed_model cfg_tokens)"
    by (simp_all add: cfg_azure_large_def cfg_azure_def cfg_tokens_def)
  from select_embeddings_by_deployment [of cfg_azure_large]
    select_embeddings_by_deployment [of cfg_tokens] a b c d
  show ?thesis by simp
qed

text \<open>
  C7. \<open>split_text\<close> is the spec's convenience path: it wraps the text in one document
  whose metadata is the given mapping (the empty mapping when none is given), runs
  \<open>split_documents\<close> on it, and returns those documents when \<open>return_docs\<close> is true and
  their content strings, in the same order, when it is false.
\<close>

theorem split_text_refines_spec:
  "split_text ext self text md return_docs = split_text_spec ext self text md return_docs"
proof -
  have "metadata_or_empty md = (case md of None \<Rightarrow> Map.empty | Some m \<Rightarrow> m)"
    by (cases md) simp_all
  then show ?thesis
    by (simp add: split_text_def split_text_spec_def split: sum.splits)
qed




text \<open>
  C9. When the semantic splitter raises, the guard returns that error, whatever the
  fallback splitter would do, and so does the wrapper around the guard. More generally
  the fallback splitter can make a difference to the guard's result only when the semantic
  splitter succeeded with at most one chunk.
\<close>

theorem oracle_failure_propagates:
  "(\<forall>e. semantic_split_documents ext (semantic s) (items docs) = Inl e \<longrightarrow>
      SafeSemantic_split_documents ext s docs = Inl e \<and>
      (\<forall>fb. SafeSemantic_split_documents (ext\<lparr>token_split_documents := fb\<rparr>) s docs = Inl e) \<and>
      split_documents ext (self\<lparr>base := SemanticBase s\<rparr>) docs = Inl e) \<and>
   (\<forall>fb. SafeSemantic_split_documents (ext\<lparr>token_split_documents := fb\<rparr>) s docs
          \<noteq> SafeSemantic_split_documents ext s docs \<longrightarrow>
      (\<exists>out. semantic_split_documents ext (semantic s) (items docs) = Inr out \<and>
             length out \<le> 1))"
proof (intro conjI allI impI)
  fix e assume "semantic_split_documents ext (semantic s) (items docs) = Inl e"
  then show "SafeSemantic_split_documents ext s docs = Inl e"
    by (simp add: SafeSemantic_split_documents_def)
next
  fix e fb assume "semantic_split_documents ext (semantic s) (items docs) = Inl e"
  then show "SafeSemantic_split_documents (ext\<lparr>token_split_documents := fb\<rparr>) s docs = Inl e"
    by (simp add: SafeSemantic_split_documents_def)
next
  fix e assume "semantic_split_documents ext (semantic s) (items docs) = Inl e"
  then show "split_documents ext (self\<lparr>base := SemanticBase s\<rparr>) docs = Inl e"
    by (simp add: split_documents_def SafeSemantic_split_documents_def)
next
  fix fb
  assume diff: "SafeSemantic_split_documents (ext\<lparr>token_split_documents := fb\<rparr>) s docs
      \<noteq> SafeSemantic_split_documents ext s docs"
  show "\<exists>out. semantic_split_documents ext (semantic s) (items docs) = Inr out \<and>
      length out \<le> 1"
  proof (cases "semantic_split_documents ext (semantic s) (items docs)")
    case (Inl e)
    with diff show ?thesis by (simp add: SafeSemantic_split_documents_def)
  next
    case (Inr out)
    with diff have "\<not> 1 < length out"
      by (auto simp add: SafeSemantic_split_documents_def)
    with Inr show ?thesis by simp
  qed
qed

text \<open>
  With an embedding backend that raises, the guard built for the token configuration and
  the chunker the factory builds both return the backend's error.
\<close>

theorem oracle_failure_propagates_witness:
  "semantic_split_documents failing_externals (semantic guard_tokens)
      (items (Sequence [doc_abcdefgh])) = Inl (OracleFailure ''rate limit'') \<and>
   SafeSemantic_split_documents failing_externals guard_tokens (Sequence [doc_abcdefgh])
     = Inl (OracleFailure ''rate limit'') \<and>
   split_documents failing_externals chunker_tokens (Sequence [doc_abcdefgh])
     = Inl (OracleFailure ''rate limit'')"
proof -
  have f: "semantic_split_documents failing_externals (semantic guard_tokens)
      (items (Sequence [doc_abcdefgh])) = Inl (OracleFailure ''rate limit'')"
    by (simp add: failing_externals_def sample_externals_def)
  have c: "chunker_tokens\<lparr>base := SemanticBase guard_tokens\<rparr> = chunker_tokens"
    by (simp add: chunker_tokens_def)
  from oracle_failure_propagates
    [of failing_externals guard_tokens "Sequence [doc_abcdefgh]" chunker_tokens] f
  have "SafeSemantic_split_documents failing_externals guard_tokens (Sequence [doc_abcdefgh])
        = Inl (OracleFailure ''rate limit'') \<and>
      split_documents failing_externals (chunker_tokens\<lparr>base := SemanticBase guard_tokens\<rparr>)
        (Sequence [doc_abcdefgh]) = Inl (OracleFailure ''rate limit'')"
    by blast
  with f c show ?thesis by simp
qed

text \<open>
  C10. With a deployment set and \<open>embed_model\<close> unset, the Azure backend is built with
  the default model name \<open>text-embedding-3-small\<close>.
\<close>

theorem azure_backend_default_model:
  "azure_openai_deployment cfg = Some d \<Longrightarrow> d \<noteq> [] \<Longrightarrow> embed_model cfg = None \<Longrightarrow>
   select_embeddings cfg = AzureOpenAIEmbeddings ''text-embedding-3-small'' d"
  by (simp add: select_embeddings_def model_name_def)

theorem azure_backend_default_model_witness:
  "azure_openai_deployment cfg_azure = Some ''emb-prod'' \<and> ''emb-prod'' \<noteq> [] \<and>
   embed_model cfg_azure = None \<and>
   select_embeddings cfg_azure = AzureOpenAIEmbeddings ''text-embedding-3-small'' ''emb-prod''"
proof -
  have a: "azure_openai_deployment cfg_azure = Some ''emb-prod''"
    and b: "''emb-prod'' \<noteq> []"
    and c: "embed_model cfg_azure = None"
    by (simp_all add: cfg_azure_def cfg_tokens_def)
  from azure_backend_default_model [OF a b c] a b c show ?thesis by simp
qed

end
